theory Spec2Isabelle
  imports Main "HOL-Library.Sublist" "HOL-Library.Multiset"
begin

section \<open>Errors, readers and HTTP messages\<close>

text \<open>
  A Go \<open>error\<close> is \<open>nil\<close> (\<open>None\<close>) or a value: one built by \<open>errors.New\<close> with its
  message, one produced by a library (\<open>net/http\<close>, \<open>io\<close>, \<open>encoding/json\<close>, the heimdall
  client), or the package's sentinel.

  Modelled from the spec: the declaration of \<open>ErrPendingTransaction\<close> is not among the
  source files; the spec calls it a sentinel error, so it is a value of its own, compared
  by identity.
\<close>

datatype go_error = errors_New string | library_error string | ErrPendingTransaction

text \<open>The message of an error; the sentinel's text is not in the source and is a parameter.\<close>

fun Error :: "string \<Rightarrow> go_error \<Rightarrow> string" where
  "Error pending (errors_New s) = s"
| "Error pending (library_error s) = s"
| "Error pending ErrPendingTransaction = pending"

text \<open>
  An \<open>io.Reader\<close> is modelled by what reading it to the end yields: the bytes and the
  error of \<open>ioutil.ReadAll\<close>. \<open>strings.NewReader s\<close> yields \<open>s\<close> and no error.
\<close>

type_synonym reader = "string \<times> go_error option"

definition strings_NewReader :: "string \<Rightarrow> reader" where
  "strings_NewReader s = (s, None)"

definition ioutil_ReadAll :: "reader \<Rightarrow> string \<times> go_error option" where
  "ioutil_ReadAll r = r"

record URL =
  Host :: string
  Path :: string

text \<open>\<open>http.Header\<close> is \<open>map[string][]string\<close>, keyed by canonical header names.\<close>

type_synonym Header = "string \<rightharpoonup> string list"

record http_Request =
  Method :: string
  URL :: URL
  Header :: Header
  ReqBody :: reader

record http_Response =
  StatusCode :: int
  Body :: reader

subsection \<open>Header names\<close>

text \<open>
  \<open>Header.Set\<close> and \<open>Header.Get\<close> of \<open>net/http\<close> go through
  \<open>textproto.CanonicalMIMEHeaderKey\<close>: a name made of token bytes gets an upper-case
  letter first and after each dash and lower-case letters elsewhere; a name with a space
  or a byte that is no token byte is left as it is.
\<close>

definition validHeaderFieldByte :: "char \<Rightarrow> bool" where
  "validHeaderFieldByte c =
     (let n = (of_char c :: nat) in
      (48 \<le> n \<and> n \<le> 57) \<or> (65 \<le> n \<and> n \<le> 90) \<or> (97 \<le> n \<and> n \<le> 122) \<or>
      n \<in> set [33, 35, 36, 37, 38, 39, 42, 43, 45, 46, 94, 95, 96, 124, 126])"

definition canon_byte :: "bool \<Rightarrow> char \<Rightarrow> char" where
  "canon_byte upper c =
     (let n = (of_char c :: nat) in
      if upper \<and> 97 \<le> n \<and> n \<le> 122 then char_of (n - 32)
      else if \<not> upper \<and> 65 \<le> n \<and> n \<le> 90 then char_of (n + 32)
      else c)"

fun canon_loop :: "bool \<Rightarrow> string \<Rightarrow> string" where
  "canon_loop upper [] = []"
| "canon_loop upper (c # cs) =
     (let c' = canon_byte upper c in c' # canon_loop (c' = CHR ''-'') cs)"

definition CanonicalMIMEHeaderKey :: "string \<Rightarrow> string" where
  "CanonicalMIMEHeaderKey s =
     (if list_all validHeaderFieldByte s then canon_loop True s else s)"

definition Header_Set :: "Header \<Rightarrow> string \<Rightarrow> string \<Rightarrow> Header" where
  "Header_Set h key val = h(CanonicalMIMEHeaderKey key \<mapsto> [val])"

definition Header_Get :: "Header \<Rightarrow> string \<Rightarrow> string" where
  "Header_Get h key =
     (case h (CanonicalMIMEHeaderKey key) of
        None \<Rightarrow> []
      | Some [] \<Rightarrow> []
      | Some (v # _) \<Rightarrow> v)"

section \<open>The client and what it depends on\<close>

record Client =
  BaseUrl :: string
  DirectDebitBaseURL :: string
  ClientId :: string
  ClientSecret :: string
  APIKey :: string
  LogLevel :: int
  Timeout :: int
  IsProduction :: bool

text \<open>
  \<open>NewClient\<close> installs a logger on standard error (``this function will always be called
  when the library is in use''), so the \<open>Logger\<close> field is not \<open>nil\<close>; what a call
  prints is the list of its lines, in order.
\<close>

datatype log_line =
    Log_Request string string string
  | Log_CreationFailed go_error
  | Log_CannotSend "go_error option"
  | Log_Completed nat
  | Log_RequestFailed "go_error option"
  | Log_CannotRead "go_error option"
  | Log_Status int
  | Log_Body string

definition NewClient :: "Client" where
  "NewClient = \<lparr>BaseUrl = [], DirectDebitBaseURL = [], ClientId = [], ClientSecret = [],
     APIKey = [], LogLevel = 2, Timeout = 3 * 60 * 1000000000, IsProduction = False\<rparr>"

text \<open>
  What the code calls and the source files do not define. From libraries:
  \<open>json.Marshal\<close> for the request record (on an error Go returns no bytes),
  \<open>json.Unmarshal\<close> into the success sink and into the error sink (the sink as it is left,
  and the error), \<open>url.Parse\<close> inside \<open>http.NewRequest\<close>, \<open>Do\<close> of the heimdall client
  (a response pointer and an error, either of which may be \<open>nil\<close>), \<open>time.Since\<close>, and the
  order in which \<open>range\<close> visits the entries of a map. From the package itself, in files
  that are not given: \<open>generateSignature\<close>, \<open>getTimestamp\<close>, \<open>BRI_TIME_FORMAT\<close> and the
  zero value of the response record of an operation.
\<close>

record ('q, 'v, 'e) extern =
  json_Marshal :: "'q \<Rightarrow> go_error + string"
  json_Unmarshal :: "string \<Rightarrow> 'v \<Rightarrow> 'v \<times> go_error option"
  json_Unmarshal_err :: "string \<Rightarrow> 'e \<Rightarrow> 'e \<times> go_error option"
  url_Parse :: "string \<Rightarrow> go_error + URL"
  Do :: "http_Request \<Rightarrow> http_Response option \<times> go_error option"
  time_Since :: nat
  range_order :: "(string \<times> string) list \<Rightarrow> (string \<times> string) list"
  generateSignature :: "string \<Rightarrow> string \<Rightarrow> string \<Rightarrow> string \<Rightarrow> string \<Rightarrow> string \<Rightarrow> string"
  getTimestamp :: "string \<Rightarrow> string"
  BRI_TIME_FORMAT :: string
  zero :: 'v

text \<open>
  How a call ends: it returns an error (or \<open>nil\<close>), or it panics on a \<open>nil\<close> response.
  With it come the two sinks as the call leaves them (\<open>None\<close> for a \<open>nil\<close> sink, \<open>Some r\<close>
  for a pointer to the record \<open>r\<close>), the lines logged and the requests handed to the
  HTTP client.
\<close>

datatype result = Return "go_error option" | Panic

record ('v, 'e) outcome =
  ret :: result
  v_out :: "'v option"
  vErr_out :: "'e option"
  logged :: "log_line list"
  sent :: "http_Request list"

section \<open>Endpoint paths\<close>

text \<open>
  The seven package-level path variables that \<open>DirectDebitHostUseSandboxPrefix\<close> assigns.
  \<open>direct_debit.go\<close> gives four of them their initial values; the declarations of
  \<open>urlDeleteCardToken\<close>, \<open>urlChargeDetail\<close> and \<open>urlRefundDirectDebit\<close> are not given, so
  their initial values are parameters.
\<close>

record urls =
  urlCreateCardTokenOTP :: string
  urlCreateCardTokenOTPVerify :: string
  urlDeleteCardToken :: string
  urlCreatePaymentChargeOTP :: string
  urlCreatePaymentChargeOTPVerify :: string
  urlChargeDetail :: string
  urlRefundDirectDebit :: string

definition initial_urls :: "string \<Rightarrow> string \<Rightarrow> string \<Rightarrow> urls" where
  "initial_urls del detail refund =
     \<lparr>urlCreateCardTokenOTP = ''/v1/directdebit/tokens'',
      urlCreateCardTokenOTPVerify = ''/v1/directdebit/tokens'',
      urlDeleteCardToken = del,
      urlCreatePaymentChargeOTP = ''/v1/directdebit/charges'',
      urlCreatePaymentChargeOTPVerify = ''/v1/directdebit/charges/verify'',
      urlChargeDetail = detail,
      urlRefundDirectDebit = refund\<rparr>"

definition DirectDebitHostUseSandboxPrefix :: "Client \<Rightarrow> bool \<Rightarrow> urls \<Rightarrow> urls" where
  "DirectDebitHostUseSandboxPrefix c use u =
     (if use then
        u\<lparr>urlCreateCardTokenOTP := ''/sandbox/v1/directdebit/tokens'',
          urlCreateCardTokenOTPVerify := ''/sandbox/v1/directdebit/tokens'',
          urlDeleteCardToken := ''/sandbox/v1/directdebit/tokens'',
          urlCreatePaymentChargeOTP := ''/sandbox/v1/directdebit/charges'',
          urlCreatePaymentChargeOTPVerify := ''/sandbox/v1/directdebit/charges/verify'',
          urlChargeDetail := ''/sandbox/v1/directdebit/charges/inquiry'',
          urlRefundDirectDebit := ''/sandbox/v1/directdebit/refunds''\<rparr>
      else
        u\<lparr>urlCreateCardTokenOTP := ''/v1/rt-directdebit/tokens'',
          urlCreateCardTokenOTPVerify := ''/v1/rt-directdebit/tokens'',
          urlDeleteCardToken := ''/v1/rt-directdebit/tokens'',
          urlCreatePaymentChargeOTP := ''/v1/rt-directdebit/charges'',
          urlCreatePaymentChargeOTPVerify := ''/v1/rt-directdebit/charges/verify'',
          urlChargeDetail := ''/v1/rt-directdebit/charges/inquiry'',
          urlRefundDirectDebit := ''/v1/rt-directdebit/refunds''\<rparr>)"

section \<open>The transport\<close>

text \<open>
  \<open>http.NewRequest\<close>: an empty method means \<open>GET\<close>, a method that is no token is refused,
  a URL that does not parse is refused; the request starts with no header.
\<close>

definition validMethod :: "string \<Rightarrow> bool" where
  "validMethod m = (m \<noteq> [] \<and> list_all validHeaderFieldByte m)"

definition http_NewRequest ::
  "('q, 'v, 'e) extern \<Rightarrow> string \<Rightarrow> string \<Rightarrow> reader \<Rightarrow> go_error + http_Request" where
  "http_NewRequest x method url body =
     (let method = (if method = [] then ''GET'' else method) in
      if \<not> validMethod method then Inl (library_error ''net/http: invalid method'')
      else case url_Parse x url of
             Inl err \<Rightarrow> Inl err
           | Inr u \<Rightarrow> Inr \<lparr>Method = method, URL = u, Header = Map.empty, ReqBody = body\<rparr>)"

text \<open>
  \<open>NewRequest\<close> returns the request or the error, never both: a sum, with the lines it
  logged. A Go map is its entries, with distinct keys; \<open>nil\<close> is \<open>None\<close>.
\<close>

definition NewRequest ::
  "('q, 'v, 'e) extern \<Rightarrow> Client \<Rightarrow> string \<Rightarrow> string \<Rightarrow> (string \<times> string) list option \<Rightarrow> reader
     \<Rightarrow> (go_error + http_Request) \<times> log_line list" where
  "NewRequest x c method fullPath headers body =
     (let logLevel = LogLevel c in
      case http_NewRequest x method fullPath body of
        Inl err \<Rightarrow> (Inl err, if logLevel > 0 then [Log_CreationFailed err] else [])
      | Inr req \<Rightarrow>
          (Inr (case headers of
                  None \<Rightarrow> req
                | Some hs \<Rightarrow>
                    fold (\<lambda>(k, vv) r. r\<lparr>Header := Header_Set (Header r) k vv\<rparr>)
                      (range_order x hs) req),
           []))"

text \<open>
  \<open>ExecuteRequest\<close>, statement by statement, in two definitions: \<open>read_and_decode\<close> is
  the function from \<open>ioutil.ReadAll\<close> to its end, for the response \<open>res\<close> and the lines
  \<open>log2\<close> logged so far; \<open>ExecuteRequest\<close> is the function up to there. The variable \<open>err\<close>
  is the one of the source: set by \<open>Do\<close>, tested twice, then set again by \<open>ReadAll\<close> and
  by the two calls of \<open>json.Unmarshal\<close>. The deferred \<open>Close\<close> dereferences the response,
  which panics when \<open>Do\<close> gave neither a response nor an error.
\<close>

definition read_and_decode ::
  "('q, 'v, 'e) extern \<Rightarrow> Client \<Rightarrow> http_Request \<Rightarrow> 'v option \<Rightarrow> 'e option \<Rightarrow> http_Response
     \<Rightarrow> log_line list \<Rightarrow> ('v, 'e) outcome" where
  "read_and_decode x c req v vErr res log2 =
     (let logLevel = LogLevel c;
          (resBody, err) = ioutil_ReadAll (Body res)
      in
      if err \<noteq> None then
        \<lparr>ret = Return err, v_out = v, vErr_out = vErr,
         logged = log2 @ (if logLevel > 0 then [Log_CannotRead err] else []), sent = [req]\<rparr>
      else
        let log3 = log2 @ (if logLevel > 2
                           then [Log_Status (StatusCode res), Log_Body resBody] else [])
        in
        if StatusCode res = 404 then
          \<lparr>ret = Return (Some (errors_New ''invalid url'')), v_out = v, vErr_out = vErr,
           logged = log3, sent = [req]\<rparr>
        else if StatusCode res = 204 then
          \<lparr>ret = Return (Some (errors_New ''204: empty response'')), v_out = v,
           vErr_out = vErr, logged = log3, sent = [req]\<rparr>
        else
          case v of
            None \<Rightarrow>
              \<lparr>ret = Return None, v_out = v, vErr_out = vErr, logged = log3, sent = [req]\<rparr>
          | Some sink \<Rightarrow>
             (let (sink', err) = json_Unmarshal x resBody sink in
              if err \<noteq> None then
                let (vErr', err) =
                      (case vErr of
                         None \<Rightarrow> (vErr, err)
                       | Some esink \<Rightarrow>
                           (let (esink', err) = json_Unmarshal_err x resBody esink
                            in (Some esink', err)))
                in
                if StatusCode res = 200 then
                  \<lparr>ret = Return (Some ErrPendingTransaction), v_out = Some sink',
                   vErr_out = vErr', logged = log3, sent = [req]\<rparr>
                else
                  \<lparr>ret = Return err, v_out = Some sink', vErr_out = vErr',
                   logged = log3, sent = [req]\<rparr>
              else
                \<lparr>ret = Return None, v_out = Some sink', vErr_out = vErr,
                 logged = log3, sent = [req]\<rparr>))"

definition ExecuteRequest ::
  "('q, 'v, 'e) extern \<Rightarrow> Client \<Rightarrow> http_Request \<Rightarrow> 'v option \<Rightarrow> 'e option \<Rightarrow> ('v, 'e) outcome" where
  "ExecuteRequest x c req v vErr =
     (let logLevel = LogLevel c;
          log1 = (if logLevel > 1
                  then [Log_Request (Method req) (Host (URL req)) (Path (URL req))] else []);
          (res, err) = Do x req
      in
      if err \<noteq> None then
        \<lparr>ret = Return err, v_out = v, vErr_out = vErr,
         logged = log1 @ (if logLevel > 0 then [Log_CannotSend err] else []), sent = [req]\<rparr>
      else
        case res of
          None \<Rightarrow> \<lparr>ret = Panic, v_out = v, vErr_out = vErr, logged = log1, sent = [req]\<rparr>
        | Some res \<Rightarrow>
           (let log2 = log1 @ (if logLevel > 2 then [Log_Completed (time_Since x)] else []) in
            if err \<noteq> None then
              \<lparr>ret = Return err, v_out = v, vErr_out = vErr,
               logged = log2 @ (if logLevel > 0 then [Log_RequestFailed err] else []),
               sent = [req]\<rparr>
            else read_and_decode x c req v vErr res log2))"

text \<open>
  \<open>ExecuteRequest\<close> with the second test of \<open>err\<close> (the one after the deferred \<open>Close\<close>)
  dropped, as the spec proposes; everything else is as above.
\<close>

definition ExecuteRequest_without_recheck ::
  "('q, 'v, 'e) extern \<Rightarrow> Client \<Rightarrow> http_Request \<Rightarrow> 'v option \<Rightarrow> 'e option \<Rightarrow> ('v, 'e) outcome" where
  "ExecuteRequest_without_recheck x c req v vErr =
     (let logLevel = LogLevel c;
          log1 = (if logLevel > 1
                  then [Log_Request (Method req) (Host (URL req)) (Path (URL req))] else []);
          (res, err) = Do x req
      in
      if err \<noteq> None then
        \<lparr>ret = Return err, v_out = v, vErr_out = vErr,
         logged = log1 @ (if logLevel > 0 then [Log_CannotSend err] else []), sent = [req]\<rparr>
      else
        case res of
          None \<Rightarrow> \<lparr>ret = Panic, v_out = v, vErr_out = vErr, logged = log1, sent = [req]\<rparr>
        | Some res \<Rightarrow>
           (let log2 = log1 @ (if logLevel > 2 then [Log_Completed (time_Since x)] else [])
            in read_and_decode x c req v vErr res log2))"

definition Call ::
  "('q, 'v, 'e) extern \<Rightarrow> Client \<Rightarrow> string \<Rightarrow> string \<Rightarrow> (string \<times> string) list option \<Rightarrow> reader
     \<Rightarrow> 'v option \<Rightarrow> 'e option \<Rightarrow> ('v, 'e) outcome" where
  "Call x c method path header body v vErr =
     (case NewRequest x c method path header body of
        (Inl err, lg) \<Rightarrow>
          \<lparr>ret = Return (Some err), v_out = v, vErr_out = vErr, logged = lg, sent = []\<rparr>
      | (Inr req, lg) \<Rightarrow>
          (let out = ExecuteRequest x c req v vErr in out\<lparr>logged := lg @ logged out\<rparr>))"

section \<open>The Direct-Debit operations\<close>

text \<open>
  The records of the operations are declared in files that are not given. Of the request
  of \<open>CreateCardTokenOTP\<close> the code names one field, \<open>Body.OtpBriStatus\<close>; its other
  fields are the extension part of the records below. The requests of the other three
  operations and all responses are type variables.
\<close>

record CoreGateway =
  Client :: Client

record CardTokenOTPBody =
  OtpBriStatus :: string

record 'b CardTokenOTPRequest =
  Body :: "'b CardTokenOTPBody_scheme"

definition MethodPost :: string where
  "MethodPost = ''POST''"

definition MethodPatch :: string where
  "MethodPatch = ''PATCH''"

text \<open>
  The pair \<open>body, err := json.Marshal(req)\<close>: on an error the byte slice is \<open>nil\<close>, which
  \<open>string(body)\<close> turns into the empty string.
\<close>

definition Marshal :: "('q, 'v, 'e) extern \<Rightarrow> 'q \<Rightarrow> string \<times> go_error option" where
  "Marshal x q = (case json_Marshal x q of Inl err \<Rightarrow> ([], Some err) | Inr b \<Rightarrow> (b, None))"

text \<open>
  Modelled from the spec: \<open>CoreGateway.Call\<close>, which the four operations invoke with five
  arguments, is not among the source files. By the spec (4.5) an operation calls the
  transport with the method, the full URL (the direct-debit base URL followed by the
  endpoint path), the headers, the body, the success sink and an optional error sink; the
  operations pass no error sink.
\<close>

definition CoreGateway_Call ::
  "('q, 'v, 'e) extern \<Rightarrow> CoreGateway \<Rightarrow> string \<Rightarrow> string \<Rightarrow> (string \<times> string) list option \<Rightarrow> reader
     \<Rightarrow> 'v option \<Rightarrow> ('v, 'e) outcome" where
  "CoreGateway_Call x g method path header body v =
     Call x (Client g) method (DirectDebitBaseURL (Client g) @ path) header body v None"

text \<open>
  An operation returns \<open>(res, err)\<close>: \<open>res\<close> starts as the zero value of the response
  record and is the success sink of the call, \<open>err\<close> is what the call returns. In the
  outcome these are \<open>v_out\<close> and \<open>ret\<close>. The paths are read from the current values \<open>u\<close>
  of the path variables.
\<close>

definition CreateCardTokenOTP ::
  "(('b, 'a) CardTokenOTPRequest_scheme, 'v, 'e) extern \<Rightarrow> urls \<Rightarrow> CoreGateway \<Rightarrow> string
     \<Rightarrow> ('b, 'a) CardTokenOTPRequest_scheme \<Rightarrow> ('v, 'e) outcome" where
  "CreateCardTokenOTP x u g token req =
     (let req = req\<lparr>Body := (Body req)\<lparr>OtpBriStatus := ''YES''\<rparr>\<rparr>;
          token = ''Bearer '' @ token;
          method = MethodPost;
          (body, err) = Marshal x req;
          timestamp = getTimestamp x (BRI_TIME_FORMAT x);
          signature = generateSignature x (urlCreateCardTokenOTP u) method token timestamp body
                        (ClientSecret (Client g));
          headers = [(''Authorization'', token),
                     (''BRI-Timestamp'', timestamp),
                     (''BRI-Signature'', signature),
                     (''Content-Type'', ''application/json'')]
      in CoreGateway_Call x g method (urlCreateCardTokenOTP u) (Some headers)
           (strings_NewReader body) (Some (zero x)))"

definition CreateCardTokenOTPVerify ::
  "('q, 'v, 'e) extern \<Rightarrow> urls \<Rightarrow> CoreGateway \<Rightarrow> string \<Rightarrow> 'q \<Rightarrow> ('v, 'e) outcome" where
  "CreateCardTokenOTPVerify x u g token req =
     (let token = ''Bearer '' @ token;
          method = MethodPatch;
          (body, err) = Marshal x req;
          timestamp = getTimestamp x (BRI_TIME_FORMAT x);
          signature = generateSignature x (urlCreateCardTokenOTPVerify u) method token timestamp
                        body (ClientSecret (Client g));
          headers = [(''Authorization'', token),
                     (''BRI-Timestamp'', timestamp),
                     (''BRI-Signature'', signature),
                     (''Content-Type'', ''application/json'')]
      in CoreGateway_Call x g method (urlCreateCardTokenOTPVerify u) (Some headers)
           (strings_NewReader body) (Some (zero x)))"

definition CreatePaymentChargeOTP ::
  "('q, 'v, 'e) extern \<Rightarrow> urls \<Rightarrow> CoreGateway \<Rightarrow> string \<Rightarrow> 'q \<Rightarrow> ('v, 'e) outcome" where
  "CreatePaymentChargeOTP x u g token req =
     (let token = ''Bearer '' @ token;
          method = MethodPost;
          (body, err) = Marshal x req;
          timestamp = getTimestamp x (BRI_TIME_FORMAT x);
          signature = generateSignature x (urlCreatePaymentChargeOTP u) method token timestamp
                        body (ClientSecret (Client g));
          headers = [(''Authorization'', token),
                     (''BRI-Timestamp'', timestamp),
                     (''BRI-Signature'', signature),
                     (''Content-Type'', ''application/json'')]
      in CoreGateway_Call x g method (urlCreatePaymentChargeOTP u) (Some headers)
           (strings_NewReader body) (Some (zero x)))"

definition CreatePaymentChargeOTPVerify ::
  "('q, 'v, 'e) extern \<Rightarrow> urls \<Rightarrow> CoreGateway \<Rightarrow> string \<Rightarrow> 'q \<Rightarrow> ('v, 'e) outcome" where
  "CreatePaymentChargeOTPVerify x u g token req =
     (let token = ''Bearer '' @ token;
          method = MethodPost;
          (body, err) = Marshal x req;
          timestamp = getTimestamp x (BRI_TIME_FORMAT x);
          signature = generateSignature x (urlCreatePaymentChargeOTPVerify u) method token
                        timestamp body (ClientSecret (Client g));
          headers = [(''Authorization'', token),
                     (''BRI-Timestamp'', timestamp),
                     (''BRI-Signature'', signature),
                     (''Content-Type'', ''application/json'')]
      in CoreGateway_Call x g method (urlCreatePaymentChargeOTPVerify u) (Some headers)
           (strings_NewReader body) (Some (zero x)))"

section \<open>A fake transport\<close>

text \<open>
  Concrete inputs in the manner of the spec's scenarios: a transport that answers every
  request with \<open>answer\<close>, a success decoder that accepts the bodies starting with \<open>ok\<close>, an
  error decoder that accepts the bodies starting with \<open>E\<close>, a URL parser that puts the
  whole string into the path, a \<open>range\<close> that visits the entries in reverse, the fixed
  timestamp \<open>20210101000000\<close> and a signer that joins its arguments.
\<close>

definition fake_extern ::
  "('q \<Rightarrow> go_error + string) \<Rightarrow> http_Response option \<times> go_error option
     \<Rightarrow> ('q, string, string) extern" where
  "fake_extern marshal answer =
     \<lparr>json_Marshal = marshal,
      json_Unmarshal = (\<lambda>b v. if prefix ''ok'' b then (b, None)
                               else (v, Some (library_error ''json: cannot unmarshal''))),
      json_Unmarshal_err = (\<lambda>b e. if prefix ''E'' b then (b, None)
                                   else (e, Some (library_error ''json: cannot unmarshal''))),
      url_Parse = (\<lambda>s. Inr \<lparr>Host = [], Path = s\<rparr>),
      Do = (\<lambda>r. answer),
      time_Since = 0,
      range_order = rev,
      generateSignature = (\<lambda>p m t ts b s. concat [p, '' '', m, '' '', t, '' '', ts, '' '', b, '' '', s]),
      getTimestamp = (\<lambda>f. ''20210101000000''),
      BRI_TIME_FORMAT = ''2006-01-02T15:04:05.000Z'',
      zero = []\<rparr>"

definition fake_request :: http_Request where
  "fake_request =
     \<lparr>Method = ''POST'', URL = \<lparr>Host = ''bri'', Path = ''/v1/directdebit/tokens''\<rparr>,
      Header = Map.empty, ReqBody = strings_NewReader ''{}''\<rparr>"

definition fake_gateway :: CoreGateway where
  "fake_gateway = \<lparr>Client = NewClient\<lparr>DirectDebitBaseURL := ''https://bri'', ClientSecret := ''s''\<rparr>\<rparr>"

section \<open>What goes out on the wire\<close>

text \<open>
  The request an operation is expected to hand to the HTTP client: the method, the parsed
  URL, the four headers under their canonical names, and the body.
\<close>

definition signed_request ::
  "string \<Rightarrow> URL \<Rightarrow> string \<Rightarrow> string \<Rightarrow> string \<Rightarrow> reader \<Rightarrow> http_Request" where
  "signed_request method url authorization timestamp signature body =
     \<lparr>Method = method, URL = url,
      Header = [''Authorization'' \<mapsto> [authorization], ''Bri-Timestamp'' \<mapsto> [timestamp],
                ''Bri-Signature'' \<mapsto> [signature], ''Content-Type'' \<mapsto> [''application/json'']],
      ReqBody = body\<rparr>"

text \<open>
  The request \<open>r\<close> carries the signature of exactly what it carries: its \<open>BRI-Signature\<close>
  header is \<open>generateSignature\<close> of the endpoint path, the method, the bearer token, the
  timestamp, the body and the client secret, and these are the path its URL was parsed
  from, its method, its \<open>Authorization\<close> header, its \<open>BRI-Timestamp\<close> header and its body.
\<close>

definition signature_matches ::
  "('q, 'v, 'e) extern \<Rightarrow> CoreGateway \<Rightarrow> string \<Rightarrow> string \<Rightarrow> string \<Rightarrow> string \<Rightarrow> http_Request
     \<Rightarrow> bool" where
  "signature_matches x g path method token body r \<longleftrightarrow>
     Header_Get (Header r) ''BRI-Signature'' =
       generateSignature x path method (''Bearer '' @ token) (getTimestamp x (BRI_TIME_FORMAT x))
         body (ClientSecret (Client g)) \<and>
     url_Parse x (DirectDebitBaseURL (Client g) @ path) = Inr (URL r) \<and>
     Method r = method \<and>
     Header_Get (Header r) ''Authorization'' = ''Bearer '' @ token \<and>
     Header_Get (Header r) ''BRI-Timestamp'' = getTimestamp x (BRI_TIME_FORMAT x) \<and>
     ReqBody r = strings_NewReader body"

text \<open>
  The requests \<open>rs\<close> sent for an endpoint path: none when the full URL does not parse
  (\<open>NewRequest\<close> fails), otherwise one, signed as above.
\<close>

definition sends_signed ::
  "('q, 'v, 'e) extern \<Rightarrow> CoreGateway \<Rightarrow> string \<Rightarrow> string \<Rightarrow> string \<Rightarrow> string
     \<Rightarrow> http_Request list \<Rightarrow> bool" where
  "sends_signed x g path method token body rs \<longleftrightarrow>
     list_all (signature_matches x g path method token body) rs \<and>
     length rs = (case url_Parse x (DirectDebitBaseURL (Client g) @ path) of
                    Inl err \<Rightarrow> 0 | Inr url \<Rightarrow> 1)"

text \<open>
  The request \<open>r\<close> has the four standard headers and no other: the names as \<open>net/http\<close>
  keeps them, one value each, \<open>application/json\<close> for the content type.
\<close>

definition standard_headers :: "http_Request \<Rightarrow> bool" where
  "standard_headers r \<longleftrightarrow>
     dom (Header r) = set (map CanonicalMIMEHeaderKey
                             [''Authorization'', ''BRI-Timestamp'', ''BRI-Signature'', ''Content-Type'']) \<and>
     card (dom (Header r)) = 4 \<and>
     list_all (\<lambda>k. case Header r (CanonicalMIMEHeaderKey k) of
                      None \<Rightarrow> False | Some vs \<Rightarrow> length vs = 1)
       [''Authorization'', ''BRI-Timestamp'', ''BRI-Signature'', ''Content-Type''] \<and>
     Header_Get (Header r) ''Content-Type'' = ''application/json''"

text \<open>The URLs of the requests that go out for an endpoint path.\<close>

definition target_of :: "('q, 'v, 'e) extern \<Rightarrow> CoreGateway \<Rightarrow> string \<Rightarrow> URL list" where
  "target_of x g path =
     (case url_Parse x (DirectDebitBaseURL (Client g) @ path) of
        Inl err \<Rightarrow> [] | Inr url \<Rightarrow> [url])"

section \<open>Decoding the response\<close>

text \<open>
  C2. When the transport gave a response with status 200 and no error, its body was read,
  the success sink is not \<open>nil\<close> and decoding the body into it fails, \<open>ExecuteRequest\<close>
  returns the sentinel \<open>ErrPendingTransaction\<close>, whatever the error sink is and whatever
  decoding into it gives.
\<close>

theorem ExecuteRequest_pending:
  assumes "Do x req = (Some res, None)"
    and "ioutil_ReadAll (http_Response.Body res) = (resBody, None)"
    and "StatusCode res = 200"
    and "json_Unmarshal x resBody sink = (sink', Some e)"
  shows "ret (ExecuteRequest x c req (Some sink) vErr) = Return (Some ErrPendingTransaction)"
  using assms
  by (simp add: ExecuteRequest_def read_and_decode_def Let_def split: option.splits prod.splits)

theorem ExecuteRequest_pending_witness:
  "ret (ExecuteRequest
         (fake_extern Inr (Some \<lparr>StatusCode = 200, Body = (''pending'', None)\<rparr>, None))
         NewClient fake_request (Some []) (Some [])) = Return (Some ErrPendingTransaction)"
  using ExecuteRequest_pending
    [of "fake_extern Inr (Some \<lparr>StatusCode = 200, Body = (''pending'', None)\<rparr>, None)"
      fake_request "\<lparr>StatusCode = 200, Body = (''pending'', None)\<rparr>" "''pending''" "[]" "[]"
      "library_error ''json: cannot unmarshal''" NewClient "Some []"]
  by (simp add: fake_extern_def ioutil_ReadAll_def)

text \<open>
  C1. The transport answers 400 with the body \<open>E01 bad pan\<close>, which the success sink
  rejects and the error sink accepts. The body is decoded into the error sink, but the
  second \<open>json.Unmarshal\<close> has overwritten \<open>err\<close> with \<open>nil\<close>, and that is what
  \<open>ExecuteRequest\<close> returns.
\<close>

theorem ExecuteRequest_error_payload_returns_nil:
  "ExecuteRequest
     (fake_extern Inr (Some \<lparr>StatusCode = 400, Body = (''E01 bad pan'', None)\<rparr>, None))
     (NewClient\<lparr>LogLevel := 0\<rparr>) fake_request (Some []) (Some []) =
   \<lparr>ret = Return None, v_out = Some [], vErr_out = Some ''E01 bad pan'', logged = [],
    sent = [fake_request]\<rparr>"
  by (simp add: ExecuteRequest_def read_and_decode_def fake_extern_def ioutil_ReadAll_def
      NewClient_def)

text \<open>
  C5, as stated, fails: a response with status 404 whose body cannot be read to the end
  makes \<open>ExecuteRequest\<close> return the error of \<open>ReadAll\<close>, since the body is read before
  the status is looked at.
\<close>

theorem ExecuteRequest_404_unreadable_body:
  "StatusCode \<lparr>StatusCode = 404, Body = ([], Some (library_error ''unexpected EOF''))\<rparr> = 404 \<and>
   ret (ExecuteRequest
         (fake_extern Inr
            (Some \<lparr>StatusCode = 404, Body = ([], Some (library_error ''unexpected EOF''))\<rparr>, None))
         NewClient fake_request (Some []) (Some [])) = Return (Some (library_error ''unexpected EOF'')) \<and>
   Error ''pending transaction'' (library_error ''unexpected EOF'') \<noteq> ''invalid url''"
  by (simp add: ExecuteRequest_def read_and_decode_def fake_extern_def ioutil_ReadAll_def
      NewClient_def)

text \<open>
  C5, amended. When the transport gave a response with status 404 and no error and its
  body was read without error, \<open>ExecuteRequest\<close> returns an error whose message is
  \<open>invalid url\<close>; it leaves both sinks as they were, and the outcome is the same whatever
  the two decoders are: nothing is decoded.
\<close>

theorem ExecuteRequest_invalid_url:
  assumes "Do x req = (Some res, None)"
    and "ioutil_ReadAll (http_Response.Body res) = (resBody, None)"
    and "StatusCode res = 404"
  shows "ret (ExecuteRequest x c req v vErr) = Return (Some (errors_New ''invalid url'')) \<and>
         Error pending (errors_New ''invalid url'') = ''invalid url'' \<and>
         v_out (ExecuteRequest x c req v vErr) = v \<and>
         vErr_out (ExecuteRequest x c req v vErr) = vErr \<and>
         ExecuteRequest (x\<lparr>json_Unmarshal := dec, json_Unmarshal_err := dec_err\<rparr>) c req v vErr =
         ExecuteRequest x c req v vErr"
  using assms
  by (simp add: ExecuteRequest_def read_and_decode_def Let_def)

theorem ExecuteRequest_invalid_url_witness:
  "ret (ExecuteRequest
         (fake_extern Inr (Some \<lparr>StatusCode = 404, Body = (''ok'', None)\<rparr>, None))
         NewClient fake_request (Some []) (Some [])) = Return (Some (errors_New ''invalid url'')) \<and>
   v_out (ExecuteRequest
         (fake_extern Inr (Some \<lparr>StatusCode = 404, Body = (''ok'', None)\<rparr>, None))
         NewClient fake_request (Some []) (Some [])) = Some []"
  using ExecuteRequest_invalid_url
    [of "fake_extern Inr (Some \<lparr>StatusCode = 404, Body = (''ok'', None)\<rparr>, None)"
      fake_request "\<lparr>StatusCode = 404, Body = (''ok'', None)\<rparr>" "''ok''" NewClient
      "Some []" "Some []"]
  by (simp add: fake_extern_def ioutil_ReadAll_def)

text \<open>
  C10. Dropping the second test of \<open>err\<close> changes nothing: for every transport, client,
  request and pair of sinks, the function without the test gives the same outcome (the
  value returned, both sinks, the lines logged and the request sent). The test is only
  reached when the first one found \<open>err\<close> to be \<open>nil\<close>, and nothing assigns \<open>err\<close>
  in between.
\<close>

theorem ExecuteRequest_recheck_redundant:
  "ExecuteRequest_without_recheck x c req v vErr = ExecuteRequest x c req v vErr"
  by (simp add: ExecuteRequest_def ExecuteRequest_without_recheck_def Let_def
      split: prod.splits option.splits)

section \<open>Headers and the outgoing request\<close>

lemma canon_keys:
  "CanonicalMIMEHeaderKey ''Authorization'' = ''Authorization''"
  "CanonicalMIMEHeaderKey ''BRI-Timestamp'' = ''Bri-Timestamp''"
  "CanonicalMIMEHeaderKey ''BRI-Signature'' = ''Bri-Signature''"
  "CanonicalMIMEHeaderKey ''Content-Type'' = ''Content-Type''"
  by code_simp+

lemma valid_methods: "validMethod MethodPost" "validMethod MethodPatch"
  by code_simp+

lemma fold_keeps:
  "fold (\<lambda>(k, vv) r. r\<lparr>Header := Header_Set (Header r) k vv\<rparr>) hs req =
   req\<lparr>Header := fold (\<lambda>(k, vv) h. Header_Set h k vv) hs (Header req)\<rparr>"
  by (induction hs arbitrary: req) auto

lemma fold_Header_Set_map_of:
  "fold (\<lambda>(k, vv) h. Header_Set h k vv) hs h =
   h ++ map_of (rev (map (\<lambda>(k, vv). (CanonicalMIMEHeaderKey k, [vv])) hs))"
proof (induction hs arbitrary: h)
  case Nil
  show ?case by simp
next
  case (Cons p hs)
  obtain k vv where p: "p = (k, vv)" by (cases p)
  let ?M = "map_of (rev (map (\<lambda>(k, vv). (CanonicalMIMEHeaderKey k, [vv])) hs))"
  have "fold (\<lambda>(k, vv) h. Header_Set h k vv) (p # hs) h =
        fold (\<lambda>(k, vv) h. Header_Set h k vv) hs (Header_Set h k vv)"
    by (simp add: p)
  also have "\<dots> = Header_Set h k vv ++ ?M"
    by (rule Cons.IH)
  also have "\<dots> = h ++ ([CanonicalMIMEHeaderKey k \<mapsto> [vv]] ++ ?M)"
    by (simp add: Header_Set_def)
  also have "\<dots> = h ++ map_of (rev (map (\<lambda>(k, vv). (CanonicalMIMEHeaderKey k, [vv])) (p # hs)))"
    by (simp add: p)
  finally show ?case .
qed

lemma Header_of_range:
  assumes d: "distinct (map (CanonicalMIMEHeaderKey \<circ> fst) hs)" and m: "mset ys = mset hs"
  shows "fold (\<lambda>(k, vv) h. Header_Set h k vv) ys h =
         h ++ map_of (map (\<lambda>(k, vv). (CanonicalMIMEHeaderKey k, [vv])) hs)"
proof -
  define f where "f = (\<lambda>(k, vv). (CanonicalMIMEHeaderKey k, [vv :: string]))"
  have fst_f: "map fst (map f zs) = map (CanonicalMIMEHeaderKey \<circ> fst) zs" for zs
    by (induction zs) (auto simp: f_def)
  have m': "mset (map (CanonicalMIMEHeaderKey \<circ> fst) ys) = mset (map (CanonicalMIMEHeaderKey \<circ> fst) hs)"
    using m by simp
  have d': "distinct (map (CanonicalMIMEHeaderKey \<circ> fst) ys)"
    using d mset_eq_imp_distinct_iff [OF m'] by simp
  have "set ys = set hs"
    using m by (rule mset_eq_setD)
  then have s: "set (rev (map f ys)) = set (map f hs)"
    by simp
  have d1: "distinct (map fst (rev (map f ys)))"
    using d' by (simp only: fst_f rev_map [symmetric] distinct_rev)
  have d2: "distinct (map fst (map f hs))"
    using d by (simp only: fst_f)
  have "map_of (rev (map f ys)) = map_of (map f hs)"
    using map_of_inject_set [OF d1 d2] s by simp
  then show ?thesis
    by (simp add: fold_Header_Set_map_of f_def)
qed

lemma sent_ExecuteRequest: "sent (ExecuteRequest x c req v vErr) = [req]"
  by (simp add: ExecuteRequest_def read_and_decode_def Let_def split: prod.splits option.splits)

lemma sent_Call:
  "sent (Call x c method path header body v vErr) =
     (case fst (NewRequest x c method path header body) of Inl err \<Rightarrow> [] | Inr req \<Rightarrow> [req])"
  by (simp add: Call_def Let_def sent_ExecuteRequest split: prod.splits sum.splits)

lemma NewRequest_standard:
  assumes m: "mset (range_order x [(''Authorization'', a), (''BRI-Timestamp'', t),
                 (''BRI-Signature'', s), (''Content-Type'', ''application/json'')]) =
              mset [(''Authorization'', a), (''BRI-Timestamp'', t),
                 (''BRI-Signature'', s), (''Content-Type'', ''application/json'')]"
    and v: "validMethod method"
  shows "fst (NewRequest x c method full
            (Some [(''Authorization'', a), (''BRI-Timestamp'', t),
                 (''BRI-Signature'', s), (''Content-Type'', ''application/json'')]) body) =
         (case url_Parse x full of
            Inl err \<Rightarrow> Inl err
          | Inr url \<Rightarrow> Inr (signed_request method url a t s body))"
proof -
  let ?H = "[(''Authorization'', a), (''BRI-Timestamp'', t),
             (''BRI-Signature'', s), (''Content-Type'', ''application/json'')]"
  have d: "distinct (map (CanonicalMIMEHeaderKey \<circ> fst) ?H)"
    by (simp add: canon_keys)
  have h: "fold (\<lambda>(k, vv) h. Header_Set h k vv) (range_order x ?H) Map.empty =
           [''Authorization'' \<mapsto> [a], ''Bri-Timestamp'' \<mapsto> [t],
            ''Bri-Signature'' \<mapsto> [s], ''Content-Type'' \<mapsto> [''application/json'']]"
    unfolding Header_of_range [OF d m]
    by (simp add: canon_keys fun_eq_iff)
  have ne: "method \<noteq> []"
    using v by (simp add: validMethod_def)
  show ?thesis
    by (simp add: NewRequest_def http_NewRequest_def Let_def v ne fold_keeps h signed_request_def
        split: sum.splits)
qed

lemma sent_CoreGateway_Call:
  assumes m: "\<And>hs. mset (range_order x hs) = mset hs"
    and v: "validMethod method"
  shows "sent (CoreGateway_Call x g method path
            (Some [(''Authorization'', a), (''BRI-Timestamp'', t),
                 (''BRI-Signature'', s), (''Content-Type'', ''application/json'')]) body v0) =
         (case url_Parse x (DirectDebitBaseURL (Client g) @ path) of
            Inl err \<Rightarrow> []
          | Inr url \<Rightarrow> [signed_request method url a t s body])"
  by (simp add: CoreGateway_Call_def sent_Call NewRequest_standard [OF m v] split: sum.splits)

lemma fake_extern_fields:
  "json_Marshal (fake_extern m a) = m"
  "url_Parse (fake_extern m a) s = Inr \<lparr>Host = [], Path = s\<rparr>"
  "Do (fake_extern m a) r = a"
  "range_order (fake_extern m a) = rev"
  "generateSignature (fake_extern m a) p me t ts b se =
     concat [p, '' '', me, '' '', t, '' '', ts, '' '', b, '' '', se]"
  "getTimestamp (fake_extern m a) f = ''20210101000000''"
  "zero (fake_extern m a) = []"
  by (simp_all add: fake_extern_def)

lemma range_rev: "mset (range_order (fake_extern m a) hs) = mset hs"
  by (simp add: fake_extern_fields)

text \<open>
  C3. Whatever order \<open>range\<close> visits the header map in, every request that one of the four
  operations hands to the HTTP client carries, as its \<open>BRI-Signature\<close> header, the value
  of \<open>generateSignature\<close> for the endpoint path, the method, \<open>Bearer\<close> and the token, the
  timestamp, the marshalled body and the client secret; its URL is parsed from the base
  URL followed by that path, its method is that method, its \<open>Authorization\<close> and
  \<open>BRI-Timestamp\<close> headers are that token and that timestamp, and its body is that
  body.
\<close>

theorem signature_on_the_wire:
  assumes "\<And>hs. mset (range_order x hs) = mset hs" and "\<And>hs. mset (range_order y hs) = mset hs"
  shows "(\<forall>r \<in> set (sent (CreateCardTokenOTP x u g token req)).
            signature_matches x g (urlCreateCardTokenOTP u) MethodPost token
              (fst (Marshal x (req\<lparr>Body := (Body req)\<lparr>OtpBriStatus := ''YES''\<rparr>\<rparr>))) r) \<and>
         (\<forall>r \<in> set (sent (CreateCardTokenOTPVerify y u g token q)).
            signature_matches y g (urlCreateCardTokenOTPVerify u) MethodPatch token
              (fst (Marshal y q)) r) \<and>
         (\<forall>r \<in> set (sent (CreatePaymentChargeOTP y u g token q)).
            signature_matches y g (urlCreatePaymentChargeOTP u) MethodPost token
              (fst (Marshal y q)) r) \<and>
         (\<forall>r \<in> set (sent (CreatePaymentChargeOTPVerify y u g token q)).
            signature_matches y g (urlCreatePaymentChargeOTPVerify u) MethodPost token
              (fst (Marshal y q)) r)"
proof (intro conjI)
  show "\<forall>r \<in> set (sent (CreateCardTokenOTP x u g token req)).
            signature_matches x g (urlCreateCardTokenOTP u) MethodPost token
              (fst (Marshal x (req\<lparr>Body := (Body req)\<lparr>OtpBriStatus := ''YES''\<rparr>\<rparr>))) r"
    by (auto simp: CreateCardTokenOTP_def Let_def sent_CoreGateway_Call [OF assms(1) valid_methods(1)]
        signature_matches_def signed_request_def Header_Get_def canon_keys strings_NewReader_def
        split: prod.splits sum.splits)
  show "\<forall>r \<in> set (sent (CreateCardTokenOTPVerify y u g token q)).
            signature_matches y g (urlCreateCardTokenOTPVerify u) MethodPatch token
              (fst (Marshal y q)) r"
    by (auto simp: CreateCardTokenOTPVerify_def Let_def sent_CoreGateway_Call [OF assms(2) valid_methods(2)]
        signature_matches_def signed_request_def Header_Get_def canon_keys strings_NewReader_def
        split: prod.splits sum.splits)
  show "\<forall>r \<in> set (sent (CreatePaymentChargeOTP y u g token q)).
            signature_matches y g (urlCreatePaymentChargeOTP u) MethodPost token
              (fst (Marshal y q)) r"
    by (auto simp: CreatePaymentChargeOTP_def Let_def sent_CoreGateway_Call [OF assms(2) valid_methods(1)]
        signature_matches_def signed_request_def Header_Get_def canon_keys strings_NewReader_def
        split: prod.splits sum.splits)
  show "\<forall>r \<in> set (sent (CreatePaymentChargeOTPVerify y u g token q)).
            signature_matches y g (urlCreatePaymentChargeOTPVerify u) MethodPost token
              (fst (Marshal y q)) r"
    by (auto simp: CreatePaymentChargeOTPVerify_def Let_def sent_CoreGateway_Call [OF assms(2) valid_methods(1)]
        signature_matches_def signed_request_def Header_Get_def canon_keys strings_NewReader_def
        split: prod.splits sum.splits)
qed


theorem signature_on_the_wire_witness:
  "sent (CreatePaymentChargeOTP
           (fake_extern Inr (Some \<lparr>StatusCode = 200, Body = (''ok'', None)\<rparr>, None))
           (initial_urls [] [] []) fake_gateway ''t'' ''{}'') \<noteq> [] \<and>
   signature_matches
     (fake_extern Inr (Some \<lparr>StatusCode = 200, Body = (''ok'', None)\<rparr>, None))
     fake_gateway ''/v1/directdebit/charges'' ''POST'' ''t'' ''{}''
     (hd (sent (CreatePaymentChargeOTP
           (fake_extern Inr (Some \<lparr>StatusCode = 200, Body = (''ok'', None)\<rparr>, None))
           (initial_urls [] [] []) fake_gateway ''t'' ''{}'')))"
proof -
  let ?x = "fake_extern (Inr :: string \<Rightarrow> go_error + string)
              (Some \<lparr>StatusCode = 200, Body = (''ok'', None)\<rparr>, None)"
  let ?x' = "fake_extern (\<lambda>q :: unit CardTokenOTPRequest. Inr (OtpBriStatus (Body q)))
              (Some \<lparr>StatusCode = 200, Body = (''ok'', None)\<rparr>, None)"
  have ne: "sent (CreatePaymentChargeOTP ?x (initial_urls [] [] []) fake_gateway ''t'' ''{}'') \<noteq> []"
    by (simp add: CreatePaymentChargeOTP_def Let_def Marshal_def
        sent_CoreGateway_Call [OF range_rev valid_methods(1)] fake_extern_fields)
  show ?thesis
    using signature_on_the_wire [of ?x' ?x "initial_urls [] [] []" fake_gateway "''t''"
        "\<lparr>Body = \<lparr>OtpBriStatus = ''NO''\<rparr>\<rparr>" "''{}''", OF range_rev range_rev] ne
    by (simp add: initial_urls_def MethodPost_def Marshal_def fake_extern_fields)
qed

lemma signed_request_standard: "standard_headers (signed_request method url a t s body)"
  by (auto simp: standard_headers_def signed_request_def Header_Get_def canon_keys)

lemma read_and_decode_Marshal:
  "read_and_decode (x\<lparr>json_Marshal := m\<rparr>) c req v vErr res lg =
   read_and_decode x c req v vErr res lg"
  by (simp add: read_and_decode_def Let_def cong: option.case_cong prod.case_cong if_cong)

lemma ExecuteRequest_Marshal:
  "ExecuteRequest (x\<lparr>json_Marshal := m\<rparr>) c req v vErr = ExecuteRequest x c req v vErr"
  by (simp add: ExecuteRequest_def read_and_decode_Marshal Let_def
      cong: option.case_cong prod.case_cong if_cong)

lemma NewRequest_Marshal:
  "NewRequest (x\<lparr>json_Marshal := m\<rparr>) c method full hs body = NewRequest x c method full hs body"
  by (simp add: NewRequest_def http_NewRequest_def Let_def
      cong: option.case_cong sum.case_cong if_cong)

lemma CoreGateway_Call_Marshal:
  "CoreGateway_Call (x\<lparr>json_Marshal := m\<rparr>) g method path hs body v =
   CoreGateway_Call x g method path hs body v"
  by (simp add: CoreGateway_Call_def Call_def NewRequest_Marshal ExecuteRequest_Marshal
      cong: prod.case_cong sum.case_cong)

text \<open>
  C8. Whatever order \<open>range\<close> visits the header map in, every request that one of the four
  operations hands to the HTTP client has exactly four headers, \<open>Authorization\<close>,
  \<open>BRI-Timestamp\<close>, \<open>BRI-Signature\<close> and \<open>Content-Type\<close> (kept by \<open>net/http\<close> under the
  canonical spelling of these names, which \<open>Header.Get\<close> finds from either spelling), each
  with one value, and the content type is \<open>application/json\<close>.
\<close>

theorem four_headers:
  assumes "\<And>hs. mset (range_order x hs) = mset hs" and "\<And>hs. mset (range_order y hs) = mset hs"
  shows "list_all standard_headers (sent (CreateCardTokenOTP x u g token req)) \<and>
         list_all standard_headers (sent (CreateCardTokenOTPVerify y u g token q)) \<and>
         list_all standard_headers (sent (CreatePaymentChargeOTP y u g token q)) \<and>
         list_all standard_headers (sent (CreatePaymentChargeOTPVerify y u g token q))"
proof (intro conjI)
  show "list_all standard_headers (sent (CreateCardTokenOTP x u g token req))"
    by (simp add: CreateCardTokenOTP_def Let_def sent_CoreGateway_Call [OF assms(1) valid_methods(1)]
        signed_request_standard split: prod.splits sum.splits)
  show "list_all standard_headers (sent (CreateCardTokenOTPVerify y u g token q))"
    by (simp add: CreateCardTokenOTPVerify_def Let_def sent_CoreGateway_Call [OF assms(2) valid_methods(2)]
        signed_request_standard split: prod.splits sum.splits)
  show "list_all standard_headers (sent (CreatePaymentChargeOTP y u g token q))"
    by (simp add: CreatePaymentChargeOTP_def Let_def sent_CoreGateway_Call [OF assms(2) valid_methods(1)]
        signed_request_standard split: prod.splits sum.splits)
  show "list_all standard_headers (sent (CreatePaymentChargeOTPVerify y u g token q))"
    by (simp add: CreatePaymentChargeOTPVerify_def Let_def sent_CoreGateway_Call [OF assms(2) valid_methods(1)]
        signed_request_standard split: prod.splits sum.splits)
qed

theorem four_headers_witness:
  "sent (CreateCardTokenOTPVerify
           (fake_extern Inr (Some \<lparr>StatusCode = 200, Body = (''ok'', None)\<rparr>, None))
           (initial_urls [] [] []) fake_gateway ''t'' ''{}'') \<noteq> [] \<and>
   standard_headers
     (hd (sent (CreateCardTokenOTPVerify
           (fake_extern Inr (Some \<lparr>StatusCode = 200, Body = (''ok'', None)\<rparr>, None))
           (initial_urls [] [] []) fake_gateway ''t'' ''{}''))) \<and>
   Header (hd (sent (CreateCardTokenOTPVerify
           (fake_extern Inr (Some \<lparr>StatusCode = 200, Body = (''ok'', None)\<rparr>, None))
           (initial_urls [] [] []) fake_gateway ''t'' ''{}''))) ''Content-Type'' =
     Some [''application/json'']"
proof -
  let ?x = "fake_extern (Inr :: string \<Rightarrow> go_error + string)
              (Some \<lparr>StatusCode = 200, Body = (''ok'', None)\<rparr>, None)"
  let ?x' = "fake_extern (\<lambda>q :: unit CardTokenOTPRequest. Inr (OtpBriStatus (Body q)))
              (Some \<lparr>StatusCode = 200, Body = (''ok'', None)\<rparr>, None)"
  have s: "sent (CreateCardTokenOTPVerify ?x (initial_urls [] [] []) fake_gateway ''t'' ''{}'') =
        [signed_request ''PATCH'' \<lparr>Host = [], Path = ''https://bri/v1/directdebit/tokens''\<rparr>
           ''Bearer t'' ''20210101000000''
           ''/v1/directdebit/tokens PATCH Bearer t 20210101000000 {} s'' (''{}'', None)]"
    apply (simp add: CreateCardTokenOTPVerify_def Let_def Marshal_def
        sent_CoreGateway_Call [OF range_rev valid_methods(2)] fake_extern_fields)
    apply (simp add: initial_urls_def fake_gateway_def MethodPatch_def strings_NewReader_def)
    done
  show ?thesis
    using four_headers [of ?x' ?x "initial_urls [] [] []" fake_gateway "''t''"
        "\<lparr>Body = \<lparr>OtpBriStatus = ''NO''\<rparr>\<rparr>" "''{}''", OF range_rev range_rev]
    by (simp add: s signed_request_def)
qed

lemma sends_signed_CoreGateway_Call:
  assumes m: "\<And>hs. mset (range_order x hs) = mset hs"
    and v: "validMethod method"
    and a: "a = ''Bearer '' @ token"
  shows "sends_signed x g path method token body
           (sent (CoreGateway_Call x g method path
              (Some [(''Authorization'', a),
                     (''BRI-Timestamp'', getTimestamp x (BRI_TIME_FORMAT x)),
                     (''BRI-Signature'',
                      generateSignature x path method a
                        (getTimestamp x (BRI_TIME_FORMAT x)) body (ClientSecret (Client g))),
                     (''Content-Type'', ''application/json'')])
              (strings_NewReader body) v0))"
  by (simp add: sends_signed_def sent_CoreGateway_Call [OF m v] signature_matches_def
      signed_request_def Header_Get_def canon_keys a split: sum.splits)

lemma Marshal_empty: "Marshal (x\<lparr>json_Marshal := \<lambda>r. Inr []\<rparr>) q = ([], None)"
  by (simp add: Marshal_def)

text \<open>
  C7. In each of the four operations the error of \<open>json.Marshal\<close> is dropped. When
  marshalling the request fails, the operation gives the very outcome it gives when
  marshalling succeeds with an empty body: it signs the empty body and hands the request
  with the empty body to the HTTP client (unless \<open>NewRequest\<close> refuses the URL), and what
  it returns is what the call returns, not the marshalling error.
\<close>

theorem marshal_error_discarded:
  assumes "\<And>hs. mset (range_order x hs) = mset hs" and "\<And>hs. mset (range_order y hs) = mset hs"
    and "json_Marshal x (req\<lparr>Body := (Body req)\<lparr>OtpBriStatus := ''YES''\<rparr>\<rparr>) = Inl e"
    and "json_Marshal y q = Inl e'"
  shows "CreateCardTokenOTP x u g token req =
           CreateCardTokenOTP (x\<lparr>json_Marshal := \<lambda>r. Inr []\<rparr>) u g token req \<and>
         sends_signed x g (urlCreateCardTokenOTP u) MethodPost token []
           (sent (CreateCardTokenOTP x u g token req)) \<and>
         CreateCardTokenOTPVerify y u g token q =
           CreateCardTokenOTPVerify (y\<lparr>json_Marshal := \<lambda>r. Inr []\<rparr>) u g token q \<and>
         sends_signed y g (urlCreateCardTokenOTPVerify u) MethodPatch token []
           (sent (CreateCardTokenOTPVerify y u g token q)) \<and>
         CreatePaymentChargeOTP y u g token q =
           CreatePaymentChargeOTP (y\<lparr>json_Marshal := \<lambda>r. Inr []\<rparr>) u g token q \<and>
         sends_signed y g (urlCreatePaymentChargeOTP u) MethodPost token []
           (sent (CreatePaymentChargeOTP y u g token q)) \<and>
         CreatePaymentChargeOTPVerify y u g token q =
           CreatePaymentChargeOTPVerify (y\<lparr>json_Marshal := \<lambda>r. Inr []\<rparr>) u g token q \<and>
         sends_signed y g (urlCreatePaymentChargeOTPVerify u) MethodPost token []
           (sent (CreatePaymentChargeOTPVerify y u g token q))"
proof -
  have mx: "Marshal x (req\<lparr>Body := (Body req)\<lparr>OtpBriStatus := ''YES''\<rparr>\<rparr>) = ([], Some e)"
    by (simp add: Marshal_def assms(3))
  have my: "Marshal y q = ([], Some e')"
    by (simp add: Marshal_def assms(4))
  show ?thesis
  proof (intro conjI)
    show "CreateCardTokenOTP x u g token req =
           CreateCardTokenOTP (x\<lparr>json_Marshal := \<lambda>r. Inr []\<rparr>) u g token req"
      by (simp add: CreateCardTokenOTP_def Let_def mx Marshal_empty CoreGateway_Call_Marshal)
    show "sends_signed x g (urlCreateCardTokenOTP u) MethodPost token []
           (sent (CreateCardTokenOTP x u g token req))"
      by (simp add: CreateCardTokenOTP_def Let_def mx
          sends_signed_CoreGateway_Call [OF assms(1) valid_methods(1)])
    show "CreateCardTokenOTPVerify y u g token q =
           CreateCardTokenOTPVerify (y\<lparr>json_Marshal := \<lambda>r. Inr []\<rparr>) u g token q"
      by (simp add: CreateCardTokenOTPVerify_def Let_def my Marshal_empty CoreGateway_Call_Marshal)
    show "sends_signed y g (urlCreateCardTokenOTPVerify u) MethodPatch token []
           (sent (CreateCardTokenOTPVerify y u g token q))"
      by (simp add: CreateCardTokenOTPVerify_def Let_def my
          sends_signed_CoreGateway_Call [OF assms(2) valid_methods(2)])
    show "CreatePaymentChargeOTP y u g token q =
           CreatePaymentChargeOTP (y\<lparr>json_Marshal := \<lambda>r. Inr []\<rparr>) u g token q"
      by (simp add: CreatePaymentChargeOTP_def Let_def my Marshal_empty CoreGateway_Call_Marshal)
    show "sends_signed y g (urlCreatePaymentChargeOTP u) MethodPost token []
           (sent (CreatePaymentChargeOTP y u g token q))"
      by (simp add: CreatePaymentChargeOTP_def Let_def my
          sends_signed_CoreGateway_Call [OF assms(2) valid_methods(1)])
    show "CreatePaymentChargeOTPVerify y u g token q =
           CreatePaymentChargeOTPVerify (y\<lparr>json_Marshal := \<lambda>r. Inr []\<rparr>) u g token q"
      by (simp add: CreatePaymentChargeOTPVerify_def Let_def my Marshal_empty CoreGateway_Call_Marshal)
    show "sends_signed y g (urlCreatePaymentChargeOTPVerify u) MethodPost token []
           (sent (CreatePaymentChargeOTPVerify y u g token q))"
      by (simp add: CreatePaymentChargeOTPVerify_def Let_def my
          sends_signed_CoreGateway_Call [OF assms(2) valid_methods(1)])
  qed
qed

theorem marshal_error_discarded_witness:
  "sends_signed
     (fake_extern (\<lambda>q :: string. Inl (library_error ''json: unsupported type''))
        (Some \<lparr>StatusCode = 200, Body = (''ok'', None)\<rparr>, None))
     fake_gateway ''/v1/directdebit/charges'' ''POST'' ''t'' []
     (sent (CreatePaymentChargeOTP
        (fake_extern (\<lambda>q :: string. Inl (library_error ''json: unsupported type''))
           (Some \<lparr>StatusCode = 200, Body = (''ok'', None)\<rparr>, None))
        (initial_urls [] [] []) fake_gateway ''t'' ''{}'')) \<and>
   length (sent (CreatePaymentChargeOTP
        (fake_extern (\<lambda>q :: string. Inl (library_error ''json: unsupported type''))
           (Some \<lparr>StatusCode = 200, Body = (''ok'', None)\<rparr>, None))
        (initial_urls [] [] []) fake_gateway ''t'' ''{}'')) = 1"
proof -
  let ?y = "fake_extern (\<lambda>q :: string. Inl (library_error ''json: unsupported type''))
              (Some \<lparr>StatusCode = 200, Body = (''ok'', None)\<rparr>, None)"
  let ?x = "fake_extern (\<lambda>q :: unit CardTokenOTPRequest. Inl (library_error ''json: unsupported type''))
              (Some \<lparr>StatusCode = 200, Body = (''ok'', None)\<rparr>, None)"
  have hx: "json_Marshal ?x (\<lparr>Body = \<lparr>OtpBriStatus = ''NO''\<rparr>\<rparr>\<lparr>Body :=
              (Body \<lparr>Body = \<lparr>OtpBriStatus = ''NO''\<rparr>\<rparr>)\<lparr>OtpBriStatus := ''YES''\<rparr>\<rparr>) =
            Inl (library_error ''json: unsupported type'')"
    by (simp add: fake_extern_fields)
  have hy: "json_Marshal ?y ''{}'' = Inl (library_error ''json: unsupported type'')"
    by (simp add: fake_extern_fields)
  have "sends_signed ?y fake_gateway (urlCreatePaymentChargeOTP (initial_urls [] [] []))
          MethodPost ''t'' []
          (sent (CreatePaymentChargeOTP ?y (initial_urls [] [] []) fake_gateway ''t'' ''{}''))"
    using marshal_error_discarded [where x = ?x and y = ?y and q = "''{}''"
        and req = "\<lparr>Body = \<lparr>OtpBriStatus = ''NO''\<rparr>\<rparr>" and u = "initial_urls [] [] []"
        and g = fake_gateway and token = "''t''", OF range_rev range_rev hx hy]
    by (elim conjE)
  then show ?thesis
    by (simp add: initial_urls_def MethodPost_def sends_signed_def fake_extern_fields)
qed

text \<open>
  C9. \<open>CreateCardTokenOTP\<close> overwrites \<open>Body.OtpBriStatus\<close> before it marshals: the outcome
  does not depend on the value the caller put there, \<open>json.Marshal\<close> only ever sees a
  record whose \<open>OtpBriStatus\<close> is \<open>YES\<close>, and (whatever order \<open>range\<close> visits the header map
  in) the body that is signed and sent is the marshalling of the request with
  \<open>OtpBriStatus\<close> set to \<open>YES\<close>.
\<close>

theorem otp_status_forced:
  assumes "\<And>hs. mset (range_order x hs) = mset hs"
  shows "CreateCardTokenOTP x u g token (req\<lparr>Body := (Body req)\<lparr>OtpBriStatus := s\<rparr>\<rparr>) =
           CreateCardTokenOTP x u g token req \<and>
         CreateCardTokenOTP
           (x\<lparr>json_Marshal := \<lambda>r. json_Marshal x (r\<lparr>Body := (Body r)\<lparr>OtpBriStatus := ''YES''\<rparr>\<rparr>)\<rparr>)
           u g token req =
           CreateCardTokenOTP x u g token req \<and>
         OtpBriStatus (Body (req\<lparr>Body := (Body req)\<lparr>OtpBriStatus := ''YES''\<rparr>\<rparr>)) = ''YES'' \<and>
         sends_signed x g (urlCreateCardTokenOTP u) MethodPost token
           (fst (Marshal x (req\<lparr>Body := (Body req)\<lparr>OtpBriStatus := ''YES''\<rparr>\<rparr>)))
           (sent (CreateCardTokenOTP x u g token req))"
proof (intro conjI)
  show "CreateCardTokenOTP x u g token (req\<lparr>Body := (Body req)\<lparr>OtpBriStatus := s\<rparr>\<rparr>) =
           CreateCardTokenOTP x u g token req"
    by (simp add: CreateCardTokenOTP_def)
  show "CreateCardTokenOTP
           (x\<lparr>json_Marshal := \<lambda>r. json_Marshal x (r\<lparr>Body := (Body r)\<lparr>OtpBriStatus := ''YES''\<rparr>\<rparr>)\<rparr>)
           u g token req =
           CreateCardTokenOTP x u g token req"
    by (simp add: CreateCardTokenOTP_def Let_def Marshal_def CoreGateway_Call_Marshal)
  show "OtpBriStatus (Body (req\<lparr>Body := (Body req)\<lparr>OtpBriStatus := ''YES''\<rparr>\<rparr>)) = ''YES''"
    by simp
  show "sends_signed x g (urlCreateCardTokenOTP u) MethodPost token
           (fst (Marshal x (req\<lparr>Body := (Body req)\<lparr>OtpBriStatus := ''YES''\<rparr>\<rparr>)))
           (sent (CreateCardTokenOTP x u g token req))"
    by (simp add: CreateCardTokenOTP_def Let_def
        sends_signed_CoreGateway_Call [OF assms valid_methods(1)] split: prod.splits)
qed

theorem otp_status_forced_witness:
  "sends_signed
     (fake_extern (\<lambda>q :: unit CardTokenOTPRequest. Inr (OtpBriStatus (Body q)))
        (Some \<lparr>StatusCode = 200, Body = (''ok'', None)\<rparr>, None))
     fake_gateway ''/v1/directdebit/tokens'' ''POST'' ''t'' ''YES''
     (sent (CreateCardTokenOTP
        (fake_extern (\<lambda>q :: unit CardTokenOTPRequest. Inr (OtpBriStatus (Body q)))
           (Some \<lparr>StatusCode = 200, Body = (''ok'', None)\<rparr>, None))
        (initial_urls [] [] []) fake_gateway ''t'' \<lparr>Body = \<lparr>OtpBriStatus = ''NO''\<rparr>\<rparr>)) \<and>
   length (sent (CreateCardTokenOTP
        (fake_extern (\<lambda>q :: unit CardTokenOTPRequest. Inr (OtpBriStatus (Body q)))
           (Some \<lparr>StatusCode = 200, Body = (''ok'', None)\<rparr>, None))
        (initial_urls [] [] []) fake_gateway ''t'' \<lparr>Body = \<lparr>OtpBriStatus = ''NO''\<rparr>\<rparr>)) = 1"
proof -
  let ?x = "fake_extern (\<lambda>q :: unit CardTokenOTPRequest. Inr (OtpBriStatus (Body q)))
              (Some \<lparr>StatusCode = 200, Body = (''ok'', None)\<rparr>, None)"
  let ?req = "\<lparr>Body = \<lparr>OtpBriStatus = ''NO''\<rparr>\<rparr>"
  have "sends_signed ?x fake_gateway (urlCreateCardTokenOTP (initial_urls [] [] [])) MethodPost ''t''
          (fst (Marshal ?x (?req\<lparr>Body := (Body ?req)\<lparr>OtpBriStatus := ''YES''\<rparr>\<rparr>)))
          (sent (CreateCardTokenOTP ?x (initial_urls [] [] []) fake_gateway ''t'' ?req))"
    using otp_status_forced [where x = ?x and u = "initial_urls [] [] []" and g = fake_gateway
        and token = "''t''" and req = ?req and s = "''NO''", OF range_rev]
    by (elim conjE)
  then show ?thesis
    by (simp add: initial_urls_def MethodPost_def Marshal_def sends_signed_def fake_extern_fields)
qed


section \<open>The endpoint paths in use\<close>

lemma URL_sent_CoreGateway_Call:
  assumes v: "validMethod method"
  shows "map URL (sent (CoreGateway_Call x g method path hs body v0)) = target_of x g path"
proof -
  have ne: "method \<noteq> []"
    using v by (simp add: validMethod_def)
  show ?thesis
    by (simp add: CoreGateway_Call_def sent_Call NewRequest_def http_NewRequest_def Let_def v ne
        fold_keeps target_of_def split: sum.splits option.splits)
qed

lemma URL_sent_operations:
  "map URL (sent (CreateCardTokenOTP x u g token req)) = target_of x g (urlCreateCardTokenOTP u)"
  "map URL (sent (CreateCardTokenOTPVerify y u g token q)) =
     target_of y g (urlCreateCardTokenOTPVerify u)"
  "map URL (sent (CreatePaymentChargeOTP y u g token q)) =
     target_of y g (urlCreatePaymentChargeOTP u)"
  "map URL (sent (CreatePaymentChargeOTPVerify y u g token q)) =
     target_of y g (urlCreatePaymentChargeOTPVerify u)"
  by (simp_all add: CreateCardTokenOTP_def CreateCardTokenOTPVerify_def CreatePaymentChargeOTP_def
      CreatePaymentChargeOTPVerify_def Let_def URL_sent_CoreGateway_Call valid_methods
      split: prod.splits)

text \<open>
  C4. After \<open>DirectDebitHostUseSandboxPrefix(true)\<close> each of the seven path variables
  begins with \<open>/sandbox/v1/directdebit/\<close>, after \<open>DirectDebitHostUseSandboxPrefix(false)\<close>
  each begins with \<open>/v1/rt-directdebit/\<close>, whatever the variables held before; and the
  URL of every request that one of the four operations then hands to the HTTP client is
  parsed from the base URL followed by the path with that prefix.
\<close>

theorem sandbox_switch_prefix:
  "prefix ''/sandbox/v1/directdebit/'' (urlCreateCardTokenOTP (DirectDebitHostUseSandboxPrefix c True u)) \<and>
   prefix ''/sandbox/v1/directdebit/'' (urlCreateCardTokenOTPVerify (DirectDebitHostUseSandboxPrefix c True u)) \<and>
   prefix ''/sandbox/v1/directdebit/'' (urlDeleteCardToken (DirectDebitHostUseSandboxPrefix c True u)) \<and>
   prefix ''/sandbox/v1/directdebit/'' (urlCreatePaymentChargeOTP (DirectDebitHostUseSandboxPrefix c True u)) \<and>
   prefix ''/sandbox/v1/directdebit/'' (urlCreatePaymentChargeOTPVerify (DirectDebitHostUseSandboxPrefix c True u)) \<and>
   prefix ''/sandbox/v1/directdebit/'' (urlChargeDetail (DirectDebitHostUseSandboxPrefix c True u)) \<and>
   prefix ''/sandbox/v1/directdebit/'' (urlRefundDirectDebit (DirectDebitHostUseSandboxPrefix c True u)) \<and>
   prefix ''/v1/rt-directdebit/'' (urlCreateCardTokenOTP (DirectDebitHostUseSandboxPrefix c False u)) \<and>
   prefix ''/v1/rt-directdebit/'' (urlCreateCardTokenOTPVerify (DirectDebitHostUseSandboxPrefix c False u)) \<and>
   prefix ''/v1/rt-directdebit/'' (urlDeleteCardToken (DirectDebitHostUseSandboxPrefix c False u)) \<and>
   prefix ''/v1/rt-directdebit/'' (urlCreatePaymentChargeOTP (DirectDebitHostUseSandboxPrefix c False u)) \<and>
   prefix ''/v1/rt-directdebit/'' (urlCreatePaymentChargeOTPVerify (DirectDebitHostUseSandboxPrefix c False u)) \<and>
   prefix ''/v1/rt-directdebit/'' (urlChargeDetail (DirectDebitHostUseSandboxPrefix c False u)) \<and>
   prefix ''/v1/rt-directdebit/'' (urlRefundDirectDebit (DirectDebitHostUseSandboxPrefix c False u)) \<and>
   map URL (sent (CreateCardTokenOTP x (DirectDebitHostUseSandboxPrefix c True u) g token req)) =
     target_of x g ''/sandbox/v1/directdebit/tokens'' \<and>
   map URL (sent (CreateCardTokenOTPVerify y (DirectDebitHostUseSandboxPrefix c True u) g token q)) =
     target_of y g ''/sandbox/v1/directdebit/tokens'' \<and>
   map URL (sent (CreatePaymentChargeOTP y (DirectDebitHostUseSandboxPrefix c True u) g token q)) =
     target_of y g ''/sandbox/v1/directdebit/charges'' \<and>
   map URL (sent (CreatePaymentChargeOTPVerify y (DirectDebitHostUseSandboxPrefix c True u) g token q)) =
     target_of y g ''/sandbox/v1/directdebit/charges/verify'' \<and>
   map URL (sent (CreateCardTokenOTP x (DirectDebitHostUseSandboxPrefix c False u) g token req)) =
     target_of x g ''/v1/rt-directdebit/tokens'' \<and>
   map URL (sent (CreateCardTokenOTPVerify y (DirectDebitHostUseSandboxPrefix c False u) g token q)) =
     target_of y g ''/v1/rt-directdebit/tokens'' \<and>
   map URL (sent (CreatePaymentChargeOTP y (DirectDebitHostUseSandboxPrefix c False u) g token q)) =
     target_of y g ''/v1/rt-directdebit/charges'' \<and>
   map URL (sent (CreatePaymentChargeOTPVerify y (DirectDebitHostUseSandboxPrefix c False u) g token q)) =
     target_of y g ''/v1/rt-directdebit/charges/verify''"
  by (simp add: URL_sent_operations DirectDebitHostUseSandboxPrefix_def)

text \<open>
  C6. Before any call of \<open>DirectDebitHostUseSandboxPrefix\<close> the four path variables of
  \<open>direct_debit.go\<close> hold \<open>/v1/directdebit/tokens\<close> (twice), \<open>/v1/directdebit/charges\<close> and
  \<open>/v1/directdebit/charges/verify\<close>, none of which begins with the sandbox prefix or with
  the production prefix; and with these values each of the four operations signs that
  path and sends its request to the base URL followed by that path (whatever order
  \<open>range\<close> visits the header map in).
\<close>

theorem initial_paths_have_neither_prefix:
  assumes "\<And>hs. mset (range_order x hs) = mset hs" and "\<And>hs. mset (range_order y hs) = mset hs"
  shows
  "urlCreateCardTokenOTP (initial_urls del detail refund) = ''/v1/directdebit/tokens'' \<and>
   urlCreateCardTokenOTPVerify (initial_urls del detail refund) = ''/v1/directdebit/tokens'' \<and>
   urlCreatePaymentChargeOTP (initial_urls del detail refund) = ''/v1/directdebit/charges'' \<and>
   urlCreatePaymentChargeOTPVerify (initial_urls del detail refund) = ''/v1/directdebit/charges/verify'' \<and>
   \<not> prefix ''/sandbox/v1/directdebit/'' ''/v1/directdebit/tokens'' \<and>
   \<not> prefix ''/v1/rt-directdebit/'' ''/v1/directdebit/tokens'' \<and>
   \<not> prefix ''/sandbox/v1/directdebit/'' ''/v1/directdebit/charges'' \<and>
   \<not> prefix ''/v1/rt-directdebit/'' ''/v1/directdebit/charges'' \<and>
   \<not> prefix ''/sandbox/v1/directdebit/'' ''/v1/directdebit/charges/verify'' \<and>
   \<not> prefix ''/v1/rt-directdebit/'' ''/v1/directdebit/charges/verify'' \<and>
   sends_signed x g ''/v1/directdebit/tokens'' MethodPost token
     (fst (Marshal x (req\<lparr>Body := (Body req)\<lparr>OtpBriStatus := ''YES''\<rparr>\<rparr>)))
     (sent (CreateCardTokenOTP x (initial_urls del detail refund) g token req)) \<and>
   sends_signed y g ''/v1/directdebit/tokens'' MethodPatch token (fst (Marshal y q))
     (sent (CreateCardTokenOTPVerify y (initial_urls del detail refund) g token q)) \<and>
   sends_signed y g ''/v1/directdebit/charges'' MethodPost token (fst (Marshal y q))
     (sent (CreatePaymentChargeOTP y (initial_urls del detail refund) g token q)) \<and>
   sends_signed y g ''/v1/directdebit/charges/verify'' MethodPost token (fst (Marshal y q))
     (sent (CreatePaymentChargeOTPVerify y (initial_urls del detail refund) g token q))"
proof -
  have a: "sends_signed x g (urlCreateCardTokenOTP u) MethodPost token
     (fst (Marshal x (req\<lparr>Body := (Body req)\<lparr>OtpBriStatus := ''YES''\<rparr>\<rparr>)))
     (sent (CreateCardTokenOTP x u g token req))" for u
    by (simp add: CreateCardTokenOTP_def Let_def
        sends_signed_CoreGateway_Call [OF assms(1) valid_methods(1)] split: prod.splits)
  have b: "sends_signed y g (urlCreateCardTokenOTPVerify u) MethodPatch token (fst (Marshal y q))
     (sent (CreateCardTokenOTPVerify y u g token q))" for u
    by (simp add: CreateCardTokenOTPVerify_def Let_def
        sends_signed_CoreGateway_Call [OF assms(2) valid_methods(2)] split: prod.splits)
  have c: "sends_signed y g (urlCreatePaymentChargeOTP u) MethodPost token (fst (Marshal y q))
     (sent (CreatePaymentChargeOTP y u g token q))" for u
    by (simp add: CreatePaymentChargeOTP_def Let_def
        sends_signed_CoreGateway_Call [OF assms(2) valid_methods(1)] split: prod.splits)
  have d: "sends_signed y g (urlCreatePaymentChargeOTPVerify u) MethodPost token (fst (Marshal y q))
     (sent (CreatePaymentChargeOTPVerify y u g token q))" for u
    by (simp add: CreatePaymentChargeOTPVerify_def Let_def
        sends_signed_CoreGateway_Call [OF assms(2) valid_methods(1)] split: prod.splits)
  show ?thesis
    using a [of "initial_urls del detail refund"] b [of "initial_urls del detail refund"]
      c [of "initial_urls del detail refund"] d [of "initial_urls del detail refund"]
    by (simp add: initial_urls_def)
qed

theorem initial_paths_have_neither_prefix_witness:
  "sends_signed
     (fake_extern Inr (Some \<lparr>StatusCode = 200, Body = (''ok'', None)\<rparr>, None))
     fake_gateway ''/v1/directdebit/charges/verify'' ''POST'' ''t'' ''{}''
     (sent (CreatePaymentChargeOTPVerify
        (fake_extern Inr (Some \<lparr>StatusCode = 200, Body = (''ok'', None)\<rparr>, None))
        (initial_urls [] [] []) fake_gateway ''t'' ''{}'')) \<and>
   length (sent (CreatePaymentChargeOTPVerify
        (fake_extern Inr (Some \<lparr>StatusCode = 200, Body = (''ok'', None)\<rparr>, None))
        (initial_urls [] [] []) fake_gateway ''t'' ''{}'')) = 1"
proof -
  let ?y = "fake_extern (Inr :: string \<Rightarrow> go_error + string)
              (Some \<lparr>StatusCode = 200, Body = (''ok'', None)\<rparr>, None)"
  let ?x = "fake_extern (\<lambda>q :: unit CardTokenOTPRequest. Inr (OtpBriStatus (Body q)))
              (Some \<lparr>StatusCode = 200, Body = (''ok'', None)\<rparr>, None)"
  have "sends_signed ?y fake_gateway ''/v1/directdebit/charges/verify'' MethodPost ''t''
          (fst (Marshal ?y ''{}''))
          (sent (CreatePaymentChargeOTPVerify ?y (initial_urls [] [] []) fake_gateway ''t'' ''{}''))"
    using initial_paths_have_neither_prefix [where x = ?x and y = ?y and q = "''{}''"
        and req = "\<lparr>Body = \<lparr>OtpBriStatus = ''NO''\<rparr>\<rparr>" and del = "[]" and detail = "[]"
        and refund = "[]" and g = fake_gateway and token = "''t''", OF range_rev range_rev]
    by (elim conjE)
  then show ?thesis
    by (simp add: MethodPost_def Marshal_def sends_signed_def fake_extern_fields)
qed


end
